theory Spec2Isabelle
  imports Main "HOL-Library.Char_ord" "HOL-Library.List_Lexorder"
begin

section \<open>JavaScript values used by the client\<close>

text \<open>
  The API client (\<^verbatim>\<open>frontend/src/lib/api.ts\<close>) and the dashboard page handle parsed JSON
  documents. A parsed document is a value of \<open>json\<close>; the JavaScript value \<^verbatim>\<open>undefined\<close>
  is \<open>None\<close> of \<open>json option\<close>. Numbers are modelled as integers, printed in decimal.
\<close>

datatype json =
    JNull
  | JBool bool
  | JNum int
  | JStr string
  | JArr "json list"
  | JObj "(string \<times> json) list"

text \<open>
  A value thrown by the code or by the platform. \<open>Error m\<close> is \<^verbatim>\<open>new Error(m)\<close>;
  \<open>Native n\<close> is an exception raised by the platform with name \<open>n\<close> (TypeError,
  SyntaxError, AbortError), whose message is engine-defined and never inspected.
\<close>

datatype thrown = Error string | Native string

fun name :: "thrown \<Rightarrow> string" where
  "name (Error m) = ''Error''"
| "name (Native n) = n"

text \<open>The state of an awaited promise: still pending, rejected, or fulfilled.\<close>

datatype 'a promise = Pending | Rejected thrown | Fulfilled 'a

text \<open>Property access \<^verbatim>\<open>v.k\<close> for a key that no prototype defines; \<open>v\<close> is not null.\<close>

fun property :: "json \<Rightarrow> string \<Rightarrow> json option" where
  "property (JObj kvs) k = map_of kvs k"
| "property v k = None"

text \<open>Truthiness of a value, as \<^verbatim>\<open>||\<close>, \<^verbatim>\<open>!!\<close> and the conditional operator test it.\<close>

fun truthy :: "json \<Rightarrow> bool" where
  "truthy JNull = False"
| "truthy (JBool b) = b"
| "truthy (JNum n) = (n \<noteq> 0)"
| "truthy (JStr s) = (s \<noteq> [])"
| "truthy (JArr xs) = True"
| "truthy (JObj kvs) = True"

text \<open>Decimal printing of an integer, as a template literal prints a number.\<close>

fun digits :: "nat \<Rightarrow> string" where
  "digits n =
     (if n < 10 then [''0123456789'' ! n]
      else digits (n div 10) @ [''0123456789'' ! (n mod 10)])"

declare digits.simps [simp del]

definition String_of_number :: "int \<Rightarrow> string" where
  "String_of_number i = (if i < 0 then CHR ''-'' # digits (nat (- i)) else digits (nat i))"

fun join :: "string \<Rightarrow> string list \<Rightarrow> string" where
  "join sep [] = []"
| "join sep [x] = x"
| "join sep (x # y # ys) = x @ sep @ join sep (y # ys)"

text \<open>The string conversion that \<^verbatim>\<open>new Error(v)\<close> and \<^verbatim>\<open>localStorage.setItem\<close> apply.\<close>

fun String :: "json \<Rightarrow> string" where
  "String JNull = ''null''"
| "String (JBool b) = (if b then ''true'' else ''false'')"
| "String (JNum n) = String_of_number n"
| "String (JStr s) = s"
| "String (JArr xs) = join '','' (map (\<lambda>x. if x = JNull then [] else String x) xs)"
| "String (JObj kvs) = ''[object Object]''"

definition String_opt :: "json option \<Rightarrow> string" where
  "String_opt v = (case v of None \<Rightarrow> ''undefined'' | Some j \<Rightarrow> String j)"



text \<open>
  \<^verbatim>\<open>JSON.stringify\<close> of an object literal: a property whose value is \<^verbatim>\<open>undefined\<close> is
  left out. The serialized text is identified with the document it denotes.
\<close>

definition JSON_stringify :: "(string \<times> json option) list \<Rightarrow> json" where
  "JSON_stringify kvs =
     JObj (concat (map (\<lambda>(k, v). case v of None \<Rightarrow> [] | Some j \<Rightarrow> [(k, j)]) kvs))"

section \<open>The browser environment\<close>

text \<open>
  \<open>window_hostname\<close> is \<^verbatim>\<open>window.location.hostname\<close>, or \<open>None\<close> where \<^verbatim>\<open>window\<close> is
  undefined; \<open>localStorage\<close> is the key-value store; \<open>reloads\<close> counts the calls of
  \<^verbatim>\<open>window.location.reload()\<close>.
\<close>

record client =
  window_hostname :: "string option"
  localStorage :: "string \<rightharpoonup> string"
  reloads :: nat

record request =
  url :: string
  http_method :: string
  headers :: "(string \<times> string) list"
  body :: "json option"
  signal :: bool

text \<open>
  A response: its status and what \<^verbatim>\<open>res.json()\<close> settles to (the parsed body, or the
  exception of a body that is not JSON). \<^verbatim>\<open>res.ok\<close> is defined by the Fetch standard as
  a status in the range 200 to 299.
\<close>

record response =
  status :: nat
  res_json :: "thrown + json"

definition ok :: "response \<Rightarrow> bool" where
  "ok res = (200 \<le> status res \<and> status res \<le> 299)"

text \<open>
  What the network does with a request: it never settles, or it settles after some
  milliseconds, rejecting (a network failure) or resolving with a response.
\<close>

datatype fetch_behaviour = Hangs | Settles nat "thrown + response"

type_synonym network = "request \<Rightarrow> fetch_behaviour"

fun settled :: "thrown + response \<Rightarrow> response promise" where
  "settled (Inl e) = Rejected e"
| "settled (Inr res) = Fulfilled res"

text \<open>\<^verbatim>\<open>await fetch(...)\<close> without an abort signal.\<close>

fun fetch :: "network \<Rightarrow> request \<Rightarrow> response promise" where
  "fetch net req = (case net req of Hangs \<Rightarrow> Pending | Settles t r \<Rightarrow> settled r)"

text \<open>
  \<^verbatim>\<open>await fetch(..., {signal})\<close> where a timer aborts the controller \<open>ms\<close> milliseconds
  after the call: a request that has not settled before the timer fires is rejected with
  an AbortError.
\<close>

fun fetch_abort_after :: "nat \<Rightarrow> network \<Rightarrow> request \<Rightarrow> response promise" where
  "fetch_abort_after ms net req =
     (case net req of
        Hangs \<Rightarrow> Rejected (Native ''AbortError'')
      | Settles t r \<Rightarrow> if t < ms then settled r else Rejected (Native ''AbortError''))"

section \<open>The API client\<close>

definition API_BASE :: "client \<Rightarrow> string" where
  "API_BASE c =
     (case window_hostname c of
        Some h \<Rightarrow> ''http://'' @ h @ '':8000''
      | None \<Rightarrow> ''http://localhost:8000'')"

definition TOKEN_KEY :: string where
  "TOKEN_KEY = ''sentinel_token''"

definition getToken :: "client \<Rightarrow> string option" where
  "getToken c = (if window_hostname c = None then None else localStorage c TOKEN_KEY)"

definition setToken :: "string \<Rightarrow> client \<Rightarrow> client" where
  "setToken token c = c\<lparr>localStorage := (localStorage c)(TOKEN_KEY \<mapsto> token)\<rparr>"

definition removeToken :: "client \<Rightarrow> client" where
  "removeToken c = c\<lparr>localStorage := (localStorage c)(TOKEN_KEY := None)\<rparr>"

definition isAuthenticated :: "client \<Rightarrow> bool" where
  "isAuthenticated c = (case getToken c of None \<Rightarrow> False | Some t \<Rightarrow> t \<noteq> [])"

definition authHeaders :: "client \<Rightarrow> (string \<times> string) list" where
  "authHeaders c =
     (case getToken c of
        None \<Rightarrow> []
      | Some token \<Rightarrow> if token \<noteq> [] then [(''Authorization'', ''Bearer '' @ token)] else [])"

text \<open>
  The failure of a response that is not ok:
  \<^verbatim>\<open>const error = await res.json().catch(() => ({ detail: d })); throw new Error(error.detail || d)\<close>.
  Reading \<^verbatim>\<open>detail\<close> of \<^verbatim>\<open>null\<close> raises a TypeError.
\<close>

definition detail_error :: "response \<Rightarrow> string \<Rightarrow> thrown" where
  "detail_error res d =
     (let error = (case res_json res of Inl e \<Rightarrow> JObj [(''detail'', JStr d)] | Inr j \<Rightarrow> j)
      in if error = JNull then Native ''TypeError''
         else (case property error ''detail'' of
                 None \<Rightarrow> Error d
               | Some v \<Rightarrow> if truthy v then Error (String v) else Error d))"

definition reload :: "client \<Rightarrow> client" where
  "reload c = (if window_hostname c = None then c else c\<lparr>reloads := Suc (reloads c)\<rparr>)"

definition handleResponse :: "response \<Rightarrow> client \<Rightarrow> json promise \<times> client" where
  "handleResponse res c =
     (if status res = 401 then (Rejected (Error ''Session expired''), reload (removeToken c))
      else if \<not> ok res then (Rejected (detail_error res ''Request failed''), c)
      else (case res_json res of
              Inl e \<Rightarrow> (Rejected e, c)
            | Inr j \<Rightarrow> (Fulfilled j, c)))"

text \<open>
  The shape shared by the protected functions:
  \<^verbatim>\<open>const res = await fetch(...); return handleResponse(res)\<close>.
\<close>

definition fetch_then_handle :: "network \<Rightarrow> request \<Rightarrow> client \<Rightarrow> json promise \<times> client" where
  "fetch_then_handle net req c =
     (case fetch net req of
        Pending \<Rightarrow> (Pending, c)
      | Rejected e \<Rightarrow> (Rejected e, c)
      | Fulfilled res \<Rightarrow> handleResponse res c)"

definition get_request :: "string \<Rightarrow> (string \<times> string) list \<Rightarrow> request" where
  "get_request u hs = \<lparr>url = u, http_method = ''GET'', headers = hs, body = None, signal = False\<rparr>"

subsection \<open>Authentication\<close>

definition login_request :: "client \<Rightarrow> string \<Rightarrow> string \<Rightarrow> request" where
  "login_request c username password =
     \<lparr>url = API_BASE c @ ''/api/auth/login'', http_method = ''POST'',
      headers = [(''Content-Type'', ''application/json'')],
      body = Some (JSON_stringify
               [(''username'', Some (JStr username)), (''password'', Some (JStr password))]),
      signal = False\<rparr>"

definition login :: "network \<Rightarrow> string \<Rightarrow> string \<Rightarrow> client \<Rightarrow> json promise \<times> client" where
  "login net username password c =
     (case fetch net (login_request c username password) of
        Pending \<Rightarrow> (Pending, c)
      | Rejected e \<Rightarrow> (Rejected e, c)
      | Fulfilled res \<Rightarrow>
          if \<not> ok res then (Rejected (detail_error res ''Login failed''), c)
          else (case res_json res of
                  Inl e \<Rightarrow> (Rejected e, c)
                | Inr data \<Rightarrow>
                    if data = JNull then (Rejected (Native ''TypeError''), c)
                    else (Fulfilled data, setToken (String_opt (property data ''access_token'')) c)))"

definition logout :: "client \<Rightarrow> client" where
  "logout c = removeToken c"

definition checkAuth :: "network \<Rightarrow> client \<Rightarrow> bool promise" where
  "checkAuth net c =
     (if (case getToken c of None \<Rightarrow> True | Some token \<Rightarrow> token = []) then Fulfilled False
      else (case fetch net (get_request (API_BASE c @ ''/api/auth/me'') (authHeaders c)) of
              Pending \<Rightarrow> Pending
            | Rejected e \<Rightarrow> Fulfilled False
            | Fulfilled res \<Rightarrow> Fulfilled (ok res)))"

subsection \<open>Protected functions\<close>

definition fetchLatestScan_request :: "client \<Rightarrow> request" where
  "fetchLatestScan_request c = get_request (API_BASE c @ ''/api/scan/latest'') (authHeaders c)"




definition fetchOllamaStatus_request :: "client \<Rightarrow> request" where
  "fetchOllamaStatus_request c = get_request (API_BASE c @ ''/api/ollama/status'') []"

definition fetchOllamaStatus :: "network \<Rightarrow> client \<Rightarrow> json promise \<times> client" where
  "fetchOllamaStatus net c = fetch_then_handle net (fetchOllamaStatus_request c) c"

text \<open>\<^verbatim>\<open>startScan(network?)\<close>: an omitted argument is \<open>None\<close>.\<close>

definition startScan_request :: "client \<Rightarrow> string option \<Rightarrow> request" where
  "startScan_request c network =
     \<lparr>url = API_BASE c @ ''/api/scan/start'', http_method = ''POST'',
      headers = (''Content-Type'', ''application/json'') # authHeaders c,
      body = Some (JSON_stringify
               [(''network'', map_option JStr network), (''scan_ports'', Some (JBool True))]),
      signal = False\<rparr>"

definition startScan :: "network \<Rightarrow> string option \<Rightarrow> client \<Rightarrow> json promise \<times> client" where
  "startScan net network c = fetch_then_handle net (startScan_request c network) c"

text \<open>
  The two enrichment calls: a timer aborts the request, and the
  \<^verbatim>\<open>catch\<close> turns an AbortError into the time-out error. The promise of
  \<^verbatim>\<open>handleResponse\<close> is returned without \<^verbatim>\<open>await\<close>, so its
  rejection does not pass through the \<^verbatim>\<open>catch\<close>.
\<close>

definition AI_catch :: "thrown \<Rightarrow> thrown" where
  "AI_catch e = (if name e = ''AbortError'' then Error ''AI request timed out'' else e)"

definition fetchAISummary_timeout :: nat where
  "fetchAISummary_timeout = 120000"

definition fetchAISummary_request :: "client \<Rightarrow> request" where
  "fetchAISummary_request c =
     \<lparr>url = API_BASE c @ ''/api/ai/quick-summary'', http_method = ''GET'',
      headers = authHeaders c, body = None, signal = True\<rparr>"

definition fetchAISummary :: "network \<Rightarrow> client \<Rightarrow> json promise \<times> client" where
  "fetchAISummary net c =
     (case fetch_abort_after fetchAISummary_timeout net (fetchAISummary_request c) of
        Pending \<Rightarrow> (Pending, c)
      | Rejected e \<Rightarrow> (Rejected (AI_catch e), c)
      | Fulfilled res \<Rightarrow> handleResponse res c)"

definition fetchAIAnalysis_timeout :: nat where
  "fetchAIAnalysis_timeout = 180000"

definition fetchAIAnalysis_request :: "client \<Rightarrow> string option \<Rightarrow> request" where
  "fetchAIAnalysis_request c deviceIp =
     \<lparr>url = API_BASE c @ ''/api/ai/analyze'', http_method = ''POST'',
      headers = (''Content-Type'', ''application/json'') # authHeaders c,
      body = Some (JSON_stringify [(''device_ip'', map_option JStr deviceIp)]),
      signal = True\<rparr>"

definition fetchAIAnalysis :: "network \<Rightarrow> string option \<Rightarrow> client \<Rightarrow> json promise \<times> client" where
  "fetchAIAnalysis net deviceIp c =
     (case fetch_abort_after fetchAIAnalysis_timeout net (fetchAIAnalysis_request c deviceIp) of
        Pending \<Rightarrow> (Pending, c)
      | Rejected e \<Rightarrow> (Rejected (AI_catch e), c)
      | Fulfilled res \<Rightarrow> handleResponse res c)"

text \<open>\<^verbatim>\<open>fetchScanHistory(limit = 50)\<close>: an omitted argument takes the default.\<close>

definition fetchScanHistory_request :: "client \<Rightarrow> int option \<Rightarrow> request" where
  "fetchScanHistory_request c limit =
     get_request
       (API_BASE c @ ''/api/scan/history?limit=''
          @ String_of_number (case limit of None \<Rightarrow> 50 | Some n \<Rightarrow> n))
       (authHeaders c)"

definition fetchScanHistory :: "network \<Rightarrow> int option \<Rightarrow> client \<Rightarrow> json promise \<times> client" where
  "fetchScanHistory net limit c = fetch_then_handle net (fetchScanHistory_request c limit) c"

definition fetchHistoricalScan_request :: "client \<Rightarrow> int \<Rightarrow> request" where
  "fetchHistoricalScan_request c scanId =
     get_request (API_BASE c @ ''/api/scan/history/'' @ String_of_number scanId) (authHeaders c)"

definition fetchHistoricalScan :: "network \<Rightarrow> int \<Rightarrow> client \<Rightarrow> json promise \<times> client" where
  "fetchHistoricalScan net scanId c =
     fetch_then_handle net (fetchHistoricalScan_request c scanId) c"

definition fetchAlerts_request :: "client \<Rightarrow> int option \<Rightarrow> request" where
  "fetchAlerts_request c limit =
     get_request
       (API_BASE c @ ''/api/alerts?limit=''
          @ String_of_number (case limit of None \<Rightarrow> 100 | Some n \<Rightarrow> n))
       (authHeaders c)"

definition fetchAlerts :: "network \<Rightarrow> int option \<Rightarrow> client \<Rightarrow> json promise \<times> client" where
  "fetchAlerts net limit c = fetch_then_handle net (fetchAlerts_request c limit) c"

definition configureDiscordWebhook_request :: "client \<Rightarrow> string \<Rightarrow> request" where
  "configureDiscordWebhook_request c webhookUrl =
     \<lparr>url = API_BASE c @ ''/api/settings/discord'', http_method = ''POST'',
      headers = (''Content-Type'', ''application/json'') # authHeaders c,
      body = Some (JSON_stringify [(''webhook_url'', Some (JStr webhookUrl))]),
      signal = False\<rparr>"

definition configureDiscordWebhook ::
  "network \<Rightarrow> string \<Rightarrow> client \<Rightarrow> json promise \<times> client" where
  "configureDiscordWebhook net webhookUrl c =
     fetch_then_handle net (configureDiscordWebhook_request c webhookUrl) c"

definition testDiscordWebhook_request :: "client \<Rightarrow> request" where
  "testDiscordWebhook_request c =
     \<lparr>url = API_BASE c @ ''/api/settings/discord/test'', http_method = ''POST'',
      headers = authHeaders c, body = None, signal = False\<rparr>"

definition testDiscordWebhook :: "network \<Rightarrow> client \<Rightarrow> json promise \<times> client" where
  "testDiscordWebhook net c = fetch_then_handle net (testDiscordWebhook_request c) c"

definition getDiscordSettings_request :: "client \<Rightarrow> request" where
  "getDiscordSettings_request c =
     get_request (API_BASE c @ ''/api/settings/discord'') (authHeaders c)"

definition getDiscordSettings :: "network \<Rightarrow> client \<Rightarrow> json promise \<times> client" where
  "getDiscordSettings net c = fetch_then_handle net (getDiscordSettings_request c) c"

subsection \<open>Display helpers\<close>

definition getRiskColor :: "string \<Rightarrow> string" where
  "getRiskColor level =
     (if level = ''HIGH'' then ''text-cyber-red''
      else if level = ''MEDIUM'' then ''text-cyber-yellow''
      else if level = ''LOW'' then ''text-cyber-blue''
      else ''text-cyber-green'')"

definition getRiskBgColor :: "string \<Rightarrow> string" where
  "getRiskBgColor level =
     (if level = ''HIGH'' then ''bg-cyber-red/20 border-cyber-red''
      else if level = ''MEDIUM'' then ''bg-cyber-yellow/20 border-cyber-yellow''
      else if level = ''LOW'' then ''bg-cyber-blue/20 border-cyber-blue''
      else ''bg-cyber-green/20 border-cyber-green'')"

section \<open>The dashboard page\<close>

text \<open>
  The part of the \<^verbatim>\<open>Dashboard\<close> component's state that \<^verbatim>\<open>handleScan\<close> reads and writes.
  \<open>scanResults\<close> and \<open>stats\<close> are \<open>JNull\<close> while they hold \<^verbatim>\<open>null\<close>;
  \<open>scanHistory\<close> is \<open>None\<close> when it was set to \<^verbatim>\<open>undefined\<close>.
\<close>

record dashboard =
  scanResults :: json
  stats :: json
  scanHistory :: "json option"
  scanning :: bool
  error :: "string option"








text \<open>
  The classes a \<^verbatim>\<open>DeviceCard\<close> derives from the risk level: the card's background, the
  status dot and the colour of the level's label.
\<close>

definition DeviceCard_classes :: "string \<Rightarrow> string \<times> string \<times> string" where
  "DeviceCard_classes lvl =
     (getRiskBgColor lvl,
      (if lvl = ''HIGH'' then ''bg-cyber-red animate-pulse''
       else if lvl = ''MEDIUM'' then ''bg-cyber-yellow''
       else ''bg-cyber-green''),
      getRiskColor lvl)"

section \<open>Interfaces of the wire contract\<close>

text \<open>The union of string literals of \<^verbatim>\<open>Device.risk.level\<close>, and the literal of each.\<close>

datatype risk_level = HIGH | MEDIUM | LOW | MINIMAL

fun literal :: "risk_level \<Rightarrow> string" where
  "literal HIGH = ''HIGH''"
| "literal MEDIUM = ''MEDIUM''"
| "literal LOW = ''LOW''"
| "literal MINIMAL = ''MINIMAL''"

record port_entry =
  port :: int
  service :: string

record risk_assessment =
  score :: int
  level :: risk_level
  reasons :: "string list"

text \<open>The interface \<^verbatim>\<open>Device\<close>; a \<^verbatim>\<open>null\<close> hostname is \<open>None\<close>.\<close>

record Device =
  ip :: string
  mac :: string
  hostname :: "string option"
  vendor :: string
  ports :: "port_entry list"
  risk :: risk_assessment

text \<open>The interface \<^verbatim>\<open>ScanHistoryItem\<close>.\<close>

record ScanHistoryItem =
  id' :: int
  scan_time :: string
  network :: string
  device_count :: int
  high_risk_count :: int
  medium_risk_count :: int
  low_risk_count :: int
  minimal_risk_count :: int
  total_open_ports :: int
  created_at :: string

section \<open>The risk scorer\<close>

text \<open>
  Modelled from the spec: the RiskScorer of section 4.3, whose code
  (\<^verbatim>\<open>scanner/network_scanner.py\<close>) is not among the sources. The spec fixes neither
  the rules' predicates nor their weights, so the rule table is a parameter: a rule has
  a predicate on the device's facts, a weight and a reason. Every applicable rule fires,
  in the table's order.
\<close>

record 'f rule =
  applies :: "'f \<Rightarrow> bool"
  weight :: int
  reason :: string

definition fired :: "'f rule list \<Rightarrow> 'f \<Rightarrow> 'f rule list" where
  "fired rules facts = filter (\<lambda>r. applies r facts) rules"

text \<open>Modelled from the spec: "Score is the sum of weights, clamped to [0, 100]".\<close>

definition risk_score :: "'f rule list \<Rightarrow> 'f \<Rightarrow> int" where
  "risk_score rules facts = max 0 (min 100 (sum_list (map weight (fired rules facts))))"

text \<open>
  Modelled from the spec: "Level thresholds: score \<ge> 70 \<rightarrow> HIGH, \<ge> 40 \<rightarrow> MEDIUM,
  \<ge> 15 \<rightarrow> LOW, else MINIMAL".
\<close>

definition risk_level_of :: "int \<Rightarrow> risk_level" where
  "risk_level_of s =
     (if s \<ge> 70 then HIGH else if s \<ge> 40 then MEDIUM else if s \<ge> 15 then LOW else MINIMAL)"

text \<open>Modelled from the spec: the RiskAssessment of a device's facts.\<close>

definition assess :: "'f rule list \<Rightarrow> 'f \<Rightarrow> risk_assessment" where
  "assess rules facts =
     \<lparr>score = risk_score rules facts,
      level = risk_level_of (risk_score rules facts),
      reasons = map reason (fired rules facts)\<rparr>"

section \<open>Example values\<close>

text \<open>
  A browser on the host \<^verbatim>\<open>pi.local\<close> whose storage holds the given token (or none), and a
  backend that answers after \<open>t\<close> milliseconds, with a snapshot of the given scan time
  as its latest one.
\<close>

definition browser :: "string option \<Rightarrow> client" where
  "browser tok =
     \<lparr>window_hostname = Some ''pi.local'',
      localStorage = (\<lambda>k. if k = ''sentinel_token'' then tok else None),
      reloads = 0\<rparr>"

definition replies :: "nat \<Rightarrow> nat \<Rightarrow> thrown + json \<Rightarrow> fetch_behaviour" where
  "replies t st b = Settles t (Inr \<lparr>status = st, res_json = b\<rparr>)"

definition snapshot :: "string \<Rightarrow> json" where
  "snapshot t =
     JObj [(''scan_time'', JStr t), (''network'', JStr ''192.168.1.0/24''),
           (''device_count'', JNum 0), (''devices'', JArr [])]"

definition backend :: "nat \<Rightarrow> string \<Rightarrow> network" where
  "backend t latest req =
     (if url req = ''http://pi.local:8000/api/scan/latest''
        then replies t 200 (Inr (snapshot latest))
      else if url req = ''http://pi.local:8000/api/scan/start''
        then replies t 200 (Inr (JObj [(''status'', JStr ''started''),
                                        (''message'', JStr ''Scan started'')]))
      else if url req = ''http://pi.local:8000/api/stats''
        then replies t 200 (Inr (JObj [(''has_data'', JBool True)]))
      else if url req = ''http://pi.local:8000/api/scan/history?limit=10''
        then replies t 200 (Inr (JObj [(''scans'', JArr []), (''count'', JNum 0)]))
      else if url req = ''http://pi.local:8000/api/ai/quick-summary''
        then replies t 200 (Inr (JObj [(''summary'', JStr ''No risks found''),
                                        (''total_devices'', JNum 0)]))
      else if url req = ''http://pi.local:8000/api/auth/login''
        then replies t 401 (Inr (JObj [(''detail'', JStr ''Incorrect username or password'')]))
      else replies t 404 (Inr (JObj [(''detail'', JStr ''Not Found'')])))"




section \<open>Properties\<close>

subsection \<open>Shared lemmas\<close>

lemma handleResponse_401:
  "status res = 401 \<Longrightarrow>
     handleResponse res c = (Rejected (Error ''Session expired''), reload (removeToken c))"
  by (simp add: handleResponse_def)

lemma handleResponse_not_ok:
  "\<not> ok res \<Longrightarrow> \<exists>e. fst (handleResponse res c) = Rejected e"
  by (simp add: handleResponse_def)

lemma handleResponse_ok_cases:
  "ok res \<Longrightarrow>
     handleResponse res c =
       (case res_json res of Inl e \<Rightarrow> Rejected e | Inr j \<Rightarrow> Fulfilled j, c)"
  by (auto simp: handleResponse_def ok_def split: sum.splits)

lemma handleResponse_Fulfilled_iff:
  "fst (handleResponse res c) = Fulfilled j \<longleftrightarrow> ok res \<and> res_json res = Inr j"
  by (auto simp: handleResponse_def ok_def split: sum.splits)

lemma fetch_then_handle_ok:
  "fetch net req = Fulfilled res \<Longrightarrow> ok res \<Longrightarrow> res_json res = Inr j \<Longrightarrow>
     fetch_then_handle net req c = (Fulfilled j, c)"
  by (simp add: fetch_then_handle_def handleResponse_ok_cases)

lemma getToken_removeToken: "getToken (reload (removeToken c)) = None"
  by (simp add: getToken_def reload_def removeToken_def)

lemma storage_removeToken: "localStorage (reload (removeToken c)) TOKEN_KEY = None"
  by (simp add: reload_def removeToken_def)

lemma authHeaders_cases:
  "map_of (authHeaders c) ''Authorization'' =
     (case getToken c of
        None \<Rightarrow> None
      | Some t \<Rightarrow> if t = [] then None else Some (''Bearer '' @ t))"
  by (simp add: authHeaders_def split: option.splits)

lemma String_of_number_50: "String_of_number 50 = ''50''"
  by (simp add: String_of_number_def digits.simps)

lemma String_of_number_10: "String_of_number 10 = ''10''"
  by (simp add: String_of_number_def digits.simps)

lemma API_BASE_browser: "API_BASE (browser tok) = ''http://pi.local:8000''"
  by (simp add: API_BASE_def browser_def)

lemma getToken_browser: "getToken (browser tok) = tok"
  by (simp add: getToken_def browser_def TOKEN_KEY_def)

subsection \<open>Polling for the end of a scan\<close>




























subsection \<open>Time-outs of the enrichment requests\<close>

lemma AI_catch_abort: "AI_catch (Native ''AbortError'') = Error ''AI request timed out''"
  by (simp add: AI_catch_def)

lemma fetchAISummary_late:
  "net (fetchAISummary_request c) = Hangs \<or>
   (\<exists>t r. net (fetchAISummary_request c) = Settles t r \<and> 120000 \<le> t) \<Longrightarrow>
     fetchAISummary net c = (Rejected (Error ''AI request timed out''), c)"
  by (auto simp: fetchAISummary_def fetchAISummary_timeout_def AI_catch_abort)

lemma fetchAISummary_in_time:
  "net (fetchAISummary_request c) = Settles t r \<Longrightarrow> t < 120000 \<Longrightarrow>
     fetchAISummary net c =
       (case r of Inl e \<Rightarrow> (Rejected (AI_catch e), c) | Inr res \<Rightarrow> handleResponse res c)"
  by (auto simp: fetchAISummary_def fetchAISummary_timeout_def split: sum.splits)

lemma fetchAIAnalysis_late:
  "net (fetchAIAnalysis_request c dip) = Hangs \<or>
   (\<exists>t r. net (fetchAIAnalysis_request c dip) = Settles t r \<and> 180000 \<le> t) \<Longrightarrow>
     fetchAIAnalysis net dip c = (Rejected (Error ''AI request timed out''), c)"
  by (auto simp: fetchAIAnalysis_def fetchAIAnalysis_timeout_def AI_catch_abort)

lemma fetchAIAnalysis_in_time:
  "net (fetchAIAnalysis_request c dip) = Settles t r \<Longrightarrow> t < 180000 \<Longrightarrow>
     fetchAIAnalysis net dip c =
       (case r of Inl e \<Rightarrow> (Rejected (AI_catch e), c) | Inr res \<Rightarrow> handleResponse res c)"
  by (auto simp: fetchAIAnalysis_def fetchAIAnalysis_timeout_def split: sum.splits)

text \<open>
  C2. \<^verbatim>\<open>fetchAISummary\<close> aborts its request after exactly 120000 ms and
  \<^verbatim>\<open>fetchAIAnalysis\<close> after exactly 180000 ms: a request that has not settled before
  that bound (it hangs, or settles at the bound or later) makes the function throw an
  Error with the message 'AI request timed out' and leaves the client's state (the
  stored token included) as it was, while a request that settles earlier is not aborted
  and goes on to the \<^verbatim>\<open>catch\<close> or to \<^verbatim>\<open>handleResponse\<close>. The outcome depends on that
  request's own behaviour only.
\<close>

theorem AI_requests_time_out:
  "(net (fetchAISummary_request c) = Hangs \<or>
    (\<exists>t r. net (fetchAISummary_request c) = Settles t r \<and> 120000 \<le> t) \<longrightarrow>
      fetchAISummary net c = (Rejected (Error ''AI request timed out''), c)) \<and>
   (\<forall>t r. net (fetchAISummary_request c) = Settles t r \<and> t < 120000 \<longrightarrow>
      fetchAISummary net c =
        (case r of Inl e \<Rightarrow> (Rejected (AI_catch e), c) | Inr res \<Rightarrow> handleResponse res c)) \<and>
   (net (fetchAIAnalysis_request c deviceIp) = Hangs \<or>
    (\<exists>t r. net (fetchAIAnalysis_request c deviceIp) = Settles t r \<and> 180000 \<le> t) \<longrightarrow>
      fetchAIAnalysis net deviceIp c = (Rejected (Error ''AI request timed out''), c)) \<and>
   (\<forall>t r. net (fetchAIAnalysis_request c deviceIp) = Settles t r \<and> t < 180000 \<longrightarrow>
      fetchAIAnalysis net deviceIp c =
        (case r of Inl e \<Rightarrow> (Rejected (AI_catch e), c) | Inr res \<Rightarrow> handleResponse res c))"
  using fetchAISummary_late [of net c] fetchAISummary_in_time [of net c]
    fetchAIAnalysis_late [of net c deviceIp] fetchAIAnalysis_in_time [of net c deviceIp]
  by blast

lemma backend_summary:
  "backend t u (fetchAISummary_request (browser tok)) =
     Settles t (Inr \<lparr>status = 200,
       res_json = Inr (JObj [(''summary'', JStr ''No risks found''), (''total_devices'', JNum 0)])\<rparr>)"
  by (simp add: backend_def replies_def fetchAISummary_request_def API_BASE_browser)

lemma backend_analysis:
  "backend t u (fetchAIAnalysis_request (browser tok) None) =
     Settles t (Inr \<lparr>status = 404, res_json = Inr (JObj [(''detail'', JStr ''Not Found'')])\<rparr>)"
  by (simp add: backend_def replies_def fetchAIAnalysis_request_def API_BASE_browser)

theorem AI_requests_time_out_witness:
  "backend 120000 ''2026-01-03T18:18:54'' (fetchAISummary_request (browser (Some ''abc''))) =
     Settles 120000 (Inr \<lparr>status = 200,
       res_json = Inr (JObj [(''summary'', JStr ''No risks found''), (''total_devices'', JNum 0)])\<rparr>) \<and>
   (120000::nat) \<le> 120000 \<and>
   fetchAISummary (backend 120000 ''2026-01-03T18:18:54'') (browser (Some ''abc''))
     = (Rejected (Error ''AI request timed out''), browser (Some ''abc'')) \<and>
   getToken (snd (fetchAISummary (backend 120000 ''2026-01-03T18:18:54'') (browser (Some ''abc''))))
     = Some ''abc'' \<and>
   backend 119999 ''2026-01-03T18:18:54'' (fetchAISummary_request (browser (Some ''abc''))) =
     Settles 119999 (Inr \<lparr>status = 200,
       res_json = Inr (JObj [(''summary'', JStr ''No risks found''), (''total_devices'', JNum 0)])\<rparr>) \<and>
   (119999::nat) < 120000 \<and>
   fetchAISummary (backend 119999 ''2026-01-03T18:18:54'') (browser (Some ''abc''))
     = (Fulfilled (JObj [(''summary'', JStr ''No risks found''), (''total_devices'', JNum 0)]),
        browser (Some ''abc'')) \<and>
   backend 180000 ''2026-01-03T18:18:54'' (fetchAIAnalysis_request (browser (Some ''abc'')) None) =
     Settles 180000 (Inr \<lparr>status = 404, res_json = Inr (JObj [(''detail'', JStr ''Not Found'')])\<rparr>) \<and>
   (180000::nat) \<le> 180000 \<and>
   fetchAIAnalysis (backend 180000 ''2026-01-03T18:18:54'') None (browser (Some ''abc''))
     = (Rejected (Error ''AI request timed out''), browser (Some ''abc''))"
  using AI_requests_time_out [of "backend 120000 ''2026-01-03T18:18:54''" "browser (Some ''abc'')" None]
    AI_requests_time_out [of "backend 119999 ''2026-01-03T18:18:54''" "browser (Some ''abc'')" None]
    AI_requests_time_out [of "backend 180000 ''2026-01-03T18:18:54''" "browser (Some ''abc'')" None]
  by (simp add: backend_summary backend_analysis getToken_browser handleResponse_def ok_def)

subsection \<open>The interfaces\<close>

text \<open>
  C3. The client's \<^verbatim>\<open>Device\<close> type reproduces the wire contract: every value of it
  consists of exactly the fields ip, mac, hostname (a string or null), vendor, ports
  (a list of entries of exactly port and service) and risk (exactly score, level and a
  list of reason strings), and level is one of exactly the four distinct values HIGH,
  MEDIUM, LOW, MINIMAL.
\<close>

theorem Device_shape:
  "(\<exists>i m h v ps s l rs.
      (dev :: Device) =
        \<lparr>ip = i, mac = m, hostname = h, vendor = v, ports = ps,
         risk = \<lparr>score = s, level = l, reasons = rs\<rparr>\<rparr> \<and>
      l \<in> {HIGH, MEDIUM, LOW, MINIMAL}) \<and>
   (\<exists>n s. (p :: port_entry) = \<lparr>port = n, service = s\<rparr>) \<and>
   distinct [HIGH, MEDIUM, LOW, MINIMAL] \<and>
   map literal [HIGH, MEDIUM, LOW, MINIMAL] = [''HIGH'', ''MEDIUM'', ''LOW'', ''MINIMAL''] \<and>
   distinct (map literal [HIGH, MEDIUM, LOW, MINIMAL])"
proof -
  obtain i m h v ps r
    where d: "dev = \<lparr>ip = i, mac = m, hostname = h, vendor = v, ports = ps, risk = r\<rparr>"
    by (cases dev) auto
  obtain s l rs where r: "r = \<lparr>score = s, level = l, reasons = rs\<rparr>"
    by (cases r) auto
  have l: "l \<in> {HIGH, MEDIUM, LOW, MINIMAL}"
    by (cases l) auto
  have p: "\<exists>n s. p = \<lparr>port = n, service = s\<rparr>"
    by (cases p) auto
  from d r l have "\<exists>i m h v ps s l rs.
      dev = \<lparr>ip = i, mac = m, hostname = h, vendor = v, ports = ps,
             risk = \<lparr>score = s, level = l, reasons = rs\<rparr>\<rparr> \<and>
      l \<in> {HIGH, MEDIUM, LOW, MINIMAL}"
    by blast
  with p show ?thesis by simp
qed

subsection \<open>The Authorization header\<close>

text \<open>
  C4, as the code has it. Every request that the client sends to an endpoint of the
  table of section 6 other than login carries the header
  \<^verbatim>\<open>Authorization: Bearer <token>\<close> if \<^verbatim>\<open>getToken\<close> yields a non-empty token (a
  non-empty token is stored and \<^verbatim>\<open>window\<close> is defined), and no Authorization header
  if it yields none or the empty string.
\<close>

theorem protected_requests_bearer:
  "req \<in> {startScan_request c nw, fetchLatestScan_request c, fetchScanHistory_request c lim,
           fetchHistoricalScan_request c scanId, fetchAlerts_request c lim',
           fetchAISummary_request c, fetchAIAnalysis_request c deviceIp,
           configureDiscordWebhook_request c webhookUrl, testDiscordWebhook_request c,
           getDiscordSettings_request c} \<Longrightarrow>
   (\<forall>t. getToken c = Some t \<and> t \<noteq> [] \<longrightarrow>
        map_of (headers req) ''Authorization'' = Some (''Bearer '' @ t)) \<and>
   (getToken c = None \<or> getToken c = Some [] \<longrightarrow>
        map_of (headers req) ''Authorization'' = None)"
  by (auto simp: startScan_request_def fetchLatestScan_request_def fetchScanHistory_request_def
      fetchHistoricalScan_request_def fetchAlerts_request_def fetchAISummary_request_def
      fetchAIAnalysis_request_def configureDiscordWebhook_request_def
      testDiscordWebhook_request_def getDiscordSettings_request_def get_request_def
      authHeaders_cases)

theorem protected_requests_bearer_witness:
  "startScan_request (browser (Some ''abc'')) None \<in>
     {startScan_request (browser (Some ''abc'')) None,
      fetchLatestScan_request (browser (Some ''abc'')),
      fetchScanHistory_request (browser (Some ''abc'')) None,
      fetchHistoricalScan_request (browser (Some ''abc'')) 1,
      fetchAlerts_request (browser (Some ''abc'')) None,
      fetchAISummary_request (browser (Some ''abc'')),
      fetchAIAnalysis_request (browser (Some ''abc'')) None,
      configureDiscordWebhook_request (browser (Some ''abc'')) ''https://discord.example/hook'',
      testDiscordWebhook_request (browser (Some ''abc'')),
      getDiscordSettings_request (browser (Some ''abc''))} \<and>
   getToken (browser (Some ''abc'')) = Some ''abc'' \<and> ''abc'' \<noteq> [] \<and>
   map_of (headers (startScan_request (browser (Some ''abc'')) None)) ''Authorization''
     = Some ''Bearer abc'' \<and>
   getToken (browser None) = None \<and>
   map_of (headers (startScan_request (browser None) None)) ''Authorization'' = None"
  using protected_requests_bearer
    [of "startScan_request (browser (Some ''abc'')) None" "browser (Some ''abc'')" None None 1
        None None "''https://discord.example/hook''"]
    protected_requests_bearer
    [of "startScan_request (browser None) None" "browser None" None None 1
        None None "''https://discord.example/hook''"]
  by (simp add: getToken_browser)

text \<open>
  C4 as the claim states it fails: with the empty string stored under the token's key,
  a token is stored and the request to \<^verbatim>\<open>/api/scan/latest\<close> carries no Authorization
  header.
\<close>

theorem stored_empty_token_counterexample:
  "localStorage (browser (Some '''')) TOKEN_KEY = Some '''' \<and>
   getToken (browser (Some '''')) = Some '''' \<and>
   map_of (headers (fetchLatestScan_request (browser (Some '''')))) ''Authorization'' = None"
  by (simp add: browser_def TOKEN_KEY_def fetchLatestScan_request_def get_request_def
      authHeaders_def getToken_def)

subsection \<open>Starting a scan\<close>

text \<open>
  C5. \<^verbatim>\<open>startScan\<close> issues a POST to \<^verbatim>\<open>/api/scan/start\<close> whose JSON body has
  \<^verbatim>\<open>scan_ports\<close> true in every case and has a \<^verbatim>\<open>network\<close> field exactly when the
  optional argument is given (an undefined one is left out of the serialized body); on
  success, an ok response whose body parses, it returns the parsed body.
\<close>

theorem startScan_body_and_result:
  "http_method (startScan_request c nw) = ''POST'' \<and>
   url (startScan_request c nw) = API_BASE c @ ''/api/scan/start'' \<and>
   body (startScan_request c nw) =
     Some (JObj ((case nw of None \<Rightarrow> [] | Some n \<Rightarrow> [(''network'', JStr n)])
                 @ [(''scan_ports'', JBool True)])) \<and>
   (\<forall>b. body (startScan_request c nw) = Some b \<longrightarrow>
      property b ''scan_ports'' = Some (JBool True) \<and>
      property b ''network'' = map_option JStr nw \<and>
      ((property b ''network'' \<noteq> None) = (nw \<noteq> None))) \<and>
   (fetch net (startScan_request c nw) = Fulfilled res \<and> ok res \<and> res_json res = Inr j \<longrightarrow>
      startScan net nw c = (Fulfilled j, c))"
  by (cases nw) (auto simp: startScan_request_def JSON_stringify_def startScan_def
       fetch_then_handle_ok simp del: fetch.simps)

lemma fetch_backend_start:
  "fetch (backend t u) (startScan_request (browser tok) nw) =
     Fulfilled \<lparr>status = 200,
       res_json = Inr (JObj [(''status'', JStr ''started''), (''message'', JStr ''Scan started'')])\<rparr>"
  by (simp add: backend_def replies_def startScan_request_def API_BASE_browser)

theorem startScan_body_and_result_witness:
  "body (startScan_request (browser (Some ''abc'')) (Some ''192.168.1.0/24'')) =
     Some (JObj [(''network'', JStr ''192.168.1.0/24''), (''scan_ports'', JBool True)]) \<and>
   body (startScan_request (browser (Some ''abc'')) None) =
     Some (JObj [(''scan_ports'', JBool True)]) \<and>
   fetch (backend 40 ''2026-01-03T18:18:54'')
       (startScan_request (browser (Some ''abc'')) (Some ''192.168.1.0/24'')) =
     Fulfilled \<lparr>status = 200,
       res_json = Inr (JObj [(''status'', JStr ''started''), (''message'', JStr ''Scan started'')])\<rparr> \<and>
   ok \<lparr>status = 200,
       res_json = Inr (JObj [(''status'', JStr ''started''), (''message'', JStr ''Scan started'')])\<rparr> \<and>
   startScan (backend 40 ''2026-01-03T18:18:54'') (Some ''192.168.1.0/24'') (browser (Some ''abc'')) =
     (Fulfilled (JObj [(''status'', JStr ''started''), (''message'', JStr ''Scan started'')]),
      browser (Some ''abc''))"
  using startScan_body_and_result
    [of "browser (Some ''abc'')" "Some ''192.168.1.0/24''" "backend 40 ''2026-01-03T18:18:54''"
        "\<lparr>status = 200,
          res_json = Inr (JObj [(''status'', JStr ''started''), (''message'', JStr ''Scan started'')])\<rparr>"
        "JObj [(''status'', JStr ''started''), (''message'', JStr ''Scan started'')]"]
    startScan_body_and_result [of "browser (Some ''abc'')" None]
  by (simp add: fetch_backend_start ok_def del: fetch.simps)

subsection \<open>The scan history\<close>

text \<open>
  C6. A \<^verbatim>\<open>ScanHistoryItem\<close> carries id, scan_time, network, device_count, one count
  for each risk level (high_risk_count, medium_risk_count, low_risk_count,
  minimal_risk_count) and total_open_ports (and created_at). \<^verbatim>\<open>fetchScanHistory\<close>
  requests \<^verbatim>\<open>/api/scan/history\<close> with the query parameter \<^verbatim>\<open>limit\<close>, 50 when the
  argument is omitted, and returns the parsed body of an ok response, the object of
  \<^verbatim>\<open>scans\<close> and \<^verbatim>\<open>count\<close>.
\<close>

theorem fetchScanHistory_limit_and_item:
  "(\<exists>a b c' d e f g h i k. (item :: ScanHistoryItem) =
      \<lparr>id' = a, scan_time = b, network = c', device_count = d, high_risk_count = e,
       medium_risk_count = f, low_risk_count = g, minimal_risk_count = h,
       total_open_ports = i, created_at = k\<rparr>) \<and>
   url (fetchScanHistory_request c None) = API_BASE c @ ''/api/scan/history?limit=50'' \<and>
   url (fetchScanHistory_request c (Some n)) =
     API_BASE c @ ''/api/scan/history?limit='' @ String_of_number n \<and>
   http_method (fetchScanHistory_request c lim) = ''GET'' \<and>
   (fetch net (fetchScanHistory_request c lim) = Fulfilled res \<and> ok res \<and> res_json res = Inr j
      \<longrightarrow> fetchScanHistory net lim c = (Fulfilled j, c))"
proof -
  have "\<exists>a b c' d e f g h i k. item =
      \<lparr>id' = a, scan_time = b, network = c', device_count = d, high_risk_count = e,
       medium_risk_count = f, low_risk_count = g, minimal_risk_count = h,
       total_open_ports = i, created_at = k\<rparr>"
    by (cases item) auto
  moreover
  have "url (fetchScanHistory_request c None) = API_BASE c @ ''/api/scan/history?limit=50''"
    by (simp add: fetchScanHistory_request_def get_request_def String_of_number_50)
  ultimately show ?thesis
    by (simp add: fetchScanHistory_request_def get_request_def fetchScanHistory_def
        fetch_then_handle_ok del: fetch.simps)
qed

lemma fetch_backend_history:
  "fetch (backend t u) (fetchScanHistory_request (browser tok) (Some 10)) =
     Fulfilled \<lparr>status = 200,
       res_json = Inr (JObj [(''scans'', JArr []), (''count'', JNum 0)])\<rparr>"
  by (simp add: backend_def replies_def fetchScanHistory_request_def get_request_def
      String_of_number_10 API_BASE_browser)

theorem fetchScanHistory_limit_and_item_witness:
  "url (fetchScanHistory_request (browser (Some ''abc'')) None) =
     ''http://pi.local:8000/api/scan/history?limit=50'' \<and>
   fetch (backend 40 ''2026-01-03T18:18:54'')
       (fetchScanHistory_request (browser (Some ''abc'')) (Some 10)) =
     Fulfilled \<lparr>status = 200,
       res_json = Inr (JObj [(''scans'', JArr []), (''count'', JNum 0)])\<rparr> \<and>
   ok \<lparr>status = 200, res_json = Inr (JObj [(''scans'', JArr []), (''count'', JNum 0)])\<rparr> \<and>
   fetchScanHistory (backend 40 ''2026-01-03T18:18:54'') (Some 10) (browser (Some ''abc'')) =
     (Fulfilled (JObj [(''scans'', JArr []), (''count'', JNum 0)]), browser (Some ''abc''))"
  using fetchScanHistory_limit_and_item
    [where c = "browser (Some ''abc'')" and n = 10 and lim = "Some 10"
       and net = "backend 40 ''2026-01-03T18:18:54''"
       and res = "\<lparr>status = 200,
                   res_json = Inr (JObj [(''scans'', JArr []), (''count'', JNum 0)])\<rparr>"
       and j = "JObj [(''scans'', JArr []), (''count'', JNum 0)]"]
  by (simp add: fetch_backend_history ok_def API_BASE_browser del: fetch.simps)

subsection \<open>The risk score\<close>

text \<open>
  C7. For every device, the risk score is the sum of the weights of the rules that
  fired, clamped to the interval from 0 to 100, and the level follows from the clamped
  score: HIGH from 70, otherwise MEDIUM from 40, otherwise LOW from 15, otherwise MINIMAL.
\<close>

theorem risk_score_clamped_and_levelled:
  "0 \<le> score (assess rules facts) \<and> score (assess rules facts) \<le> 100 \<and>
   score (assess rules facts) =
     max 0 (min 100 (sum_list (map weight (filter (\<lambda>r. applies r facts) rules)))) \<and>
   level (assess rules facts) =
     (if score (assess rules facts) \<ge> 70 then HIGH
      else if score (assess rules facts) \<ge> 40 then MEDIUM
      else if score (assess rules facts) \<ge> 15 then LOW
      else MINIMAL)"
proof -
  define raw where "raw = sum_list (map weight (filter (\<lambda>r. applies r facts) rules))"
  have s: "score (assess rules facts) = max 0 (min 100 raw)"
    by (simp add: assess_def risk_score_def fired_def raw_def)
  have l: "level (assess rules facts) = risk_level_of (max 0 (min 100 raw))"
    by (simp add: assess_def risk_score_def fired_def raw_def)
  show ?thesis
    unfolding s l raw_def [symmetric] by (simp add: risk_level_of_def)
qed

subsection \<open>Responses and the session\<close>

text \<open>
  C8, as the code has it. For every response of status 401, \<^verbatim>\<open>handleResponse\<close> removes
  the stored token and throws an Error with the message 'Session expired'; it returns no
  value for a 401 or any other response that is not ok; and it returns the parsed JSON
  body exactly when the response is ok and its body parses as JSON, leaving the client's
  state as it was for an ok response.
\<close>

theorem handleResponse_outcomes:
  "(status res = 401 \<longrightarrow>
      handleResponse res c = (Rejected (Error ''Session expired''), reload (removeToken c)) \<and>
      localStorage (snd (handleResponse res c)) TOKEN_KEY = None \<and>
      getToken (snd (handleResponse res c)) = None \<and>
      \<not> isAuthenticated (snd (handleResponse res c))) \<and>
   (\<not> ok res \<longrightarrow> (\<exists>e. fst (handleResponse res c) = Rejected e)) \<and>
   (fst (handleResponse res c) = Fulfilled j \<longleftrightarrow> ok res \<and> res_json res = Inr j) \<and>
   (ok res \<longrightarrow> snd (handleResponse res c) = c)"
proof (intro conjI impI)
  assume "status res = 401"
  then show "handleResponse res c =
      (Rejected (Error ''Session expired''), reload (removeToken c))"
    by (rule handleResponse_401)
  then show "localStorage (snd (handleResponse res c)) TOKEN_KEY = None"
    by (simp add: storage_removeToken)
  from \<open>status res = 401\<close> show "getToken (snd (handleResponse res c)) = None"
    by (simp add: handleResponse_401 getToken_removeToken)
  then show "\<not> isAuthenticated (snd (handleResponse res c))"
    by (simp add: isAuthenticated_def)
next
  assume "\<not> ok res"
  then show "\<exists>e. fst (handleResponse res c) = Rejected e"
    by (rule handleResponse_not_ok)
next
  show "fst (handleResponse res c) = Fulfilled j \<longleftrightarrow> ok res \<and> res_json res = Inr j"
    by (rule handleResponse_Fulfilled_iff)
next
  assume "ok res"
  then show "snd (handleResponse res c) = c"
    by (simp add: handleResponse_ok_cases)
qed

theorem handleResponse_outcomes_witness:
  "status \<lparr>status = 401, res_json = Inr (JObj [(''detail'', JStr ''Token expired'')])\<rparr> = 401 \<and>
   \<not> ok \<lparr>status = 401, res_json = Inr (JObj [(''detail'', JStr ''Token expired'')])\<rparr> \<and>
   fst (handleResponse \<lparr>status = 401, res_json = Inr (JObj [(''detail'', JStr ''Token expired'')])\<rparr>
          (browser (Some ''abc''))) = Rejected (Error ''Session expired'') \<and>
   getToken (snd (handleResponse
       \<lparr>status = 401, res_json = Inr (JObj [(''detail'', JStr ''Token expired'')])\<rparr>
       (browser (Some ''abc'')))) = None \<and>
   ok \<lparr>status = 200, res_json = Inr (JObj [(''has_data'', JBool True)])\<rparr> \<and>
   handleResponse \<lparr>status = 200, res_json = Inr (JObj [(''has_data'', JBool True)])\<rparr>
       (browser (Some ''abc'')) = (Fulfilled (JObj [(''has_data'', JBool True)]), browser (Some ''abc''))"
  using handleResponse_outcomes
    [of "\<lparr>status = 401, res_json = Inr (JObj [(''detail'', JStr ''Token expired'')])\<rparr>"
        "browser (Some ''abc'')"]
    handleResponse_outcomes
    [of "\<lparr>status = 200, res_json = Inr (JObj [(''has_data'', JBool True)])\<rparr>"
        "browser (Some ''abc'')" "JObj [(''has_data'', JBool True)]"]
  by (simp add: ok_def prod_eq_iff getToken_removeToken)

text \<open>
  C8 as the claim states it fails: a response of status 204 is ok and has no body to
  parse, so \<^verbatim>\<open>res.json()\<close> rejects and \<^verbatim>\<open>handleResponse\<close> returns no value.
\<close>

theorem ok_without_json_counterexample:
  "ok \<lparr>status = 204, res_json = Inl (Native ''SyntaxError'')\<rparr> \<and>
   fst (handleResponse \<lparr>status = 204, res_json = Inl (Native ''SyntaxError'')\<rparr>
          (browser (Some ''abc''))) = Rejected (Native ''SyntaxError'')"
  by (simp add: ok_def handleResponse_def)

subsection \<open>Login\<close>

text \<open>
  C9. \<^verbatim>\<open>login\<close> is atomic with respect to the stored credentials: the stored token is
  overwritten only after an ok response, so after every failed attempt (the request
  rejected by a network error, or a response that is not ok) the client's state, the
  stored token and hence \<^verbatim>\<open>isAuthenticated()\<close> are what they were, and the call
  throws.
\<close>

theorem login_failure_keeps_token:
  "(fetch net (login_request c username password) = Rejected e \<or>
    (fetch net (login_request c username password) = Fulfilled res \<and> \<not> ok res) \<longrightarrow>
      snd (login net username password c) = c \<and>
      localStorage (snd (login net username password c)) TOKEN_KEY = localStorage c TOKEN_KEY \<and>
      getToken (snd (login net username password c)) = getToken c \<and>
      isAuthenticated (snd (login net username password c)) = isAuthenticated c \<and>
      (\<exists>e'. fst (login net username password c) = Rejected e')) \<and>
   (snd (login net username password c) \<noteq> c \<longrightarrow>
      (\<exists>r. fetch net (login_request c username password) = Fulfilled r \<and> ok r))"
proof (intro conjI impI)
  assume f: "fetch net (login_request c username password) = Rejected e \<or>
    (fetch net (login_request c username password) = Fulfilled res \<and> \<not> ok res)"
  then show same: "snd (login net username password c) = c"
    by (auto simp: login_def simp del: fetch.simps)
  then show "localStorage (snd (login net username password c)) TOKEN_KEY
      = localStorage c TOKEN_KEY"
    and "getToken (snd (login net username password c)) = getToken c"
    and "isAuthenticated (snd (login net username password c)) = isAuthenticated c"
    by simp_all
  from f show "\<exists>e'. fst (login net username password c) = Rejected e'"
    by (auto simp: login_def simp del: fetch.simps)
next
  assume "snd (login net username password c) \<noteq> c"
  then show "\<exists>r. fetch net (login_request c username password) = Fulfilled r \<and> ok r"
    by (cases "fetch net (login_request c username password)")
       (auto simp: login_def simp del: fetch.simps split: if_splits)
qed

lemma fetch_backend_login:
  "fetch (backend t u) (login_request (browser tok) username password) =
     Fulfilled \<lparr>status = 401,
       res_json = Inr (JObj [(''detail'', JStr ''Incorrect username or password'')])\<rparr>"
  by (simp add: backend_def replies_def login_request_def API_BASE_browser)

theorem login_failure_keeps_token_witness:
  "fetch (backend 40 ''2026-01-03T18:18:54'')
       (login_request (browser (Some ''abc'')) ''admin'' ''wrong'') =
     Fulfilled \<lparr>status = 401,
       res_json = Inr (JObj [(''detail'', JStr ''Incorrect username or password'')])\<rparr> \<and>
   \<not> ok \<lparr>status = 401,
       res_json = Inr (JObj [(''detail'', JStr ''Incorrect username or password'')])\<rparr> \<and>
   snd (login (backend 40 ''2026-01-03T18:18:54'') ''admin'' ''wrong'' (browser (Some ''abc'')))
     = browser (Some ''abc'') \<and>
   getToken (snd (login (backend 40 ''2026-01-03T18:18:54'') ''admin'' ''wrong''
       (browser (Some ''abc'')))) = Some ''abc'' \<and>
   fst (login (backend 40 ''2026-01-03T18:18:54'') ''admin'' ''wrong'' (browser (Some ''abc'')))
     = Rejected (Error ''Incorrect username or password'')"
  using login_failure_keeps_token
    [of "backend 40 ''2026-01-03T18:18:54''" "browser (Some ''abc'')" "''admin''" "''wrong''"
        "Error ''''"
        "\<lparr>status = 401,
          res_json = Inr (JObj [(''detail'', JStr ''Incorrect username or password'')])\<rparr>"]
  by (simp add: fetch_backend_login ok_def getToken_browser del: fetch.simps)
     (simp add: login_def fetch_backend_login ok_def detail_error_def del: fetch.simps)

subsection \<open>Colours of the risk levels\<close>

text \<open>
  C10. \<^verbatim>\<open>getRiskColor\<close> and \<^verbatim>\<open>getRiskBgColor\<close> are total over arbitrary strings:
  every level other than HIGH, MEDIUM and LOW, MINIMAL and any unrecognised string
  included, gets the green default styling, so a device of unknown level gets the
  classes of a MINIMAL device, from both functions and on its whole card.
\<close>

theorem risk_colors_default_green:
  "lvl \<notin> {''HIGH'', ''MEDIUM'', ''LOW''} \<Longrightarrow>
     getRiskColor lvl = ''text-cyber-green'' \<and>
     getRiskBgColor lvl = ''bg-cyber-green/20 border-cyber-green'' \<and>
     getRiskColor lvl = getRiskColor ''MINIMAL'' \<and>
     getRiskBgColor lvl = getRiskBgColor ''MINIMAL'' \<and>
     DeviceCard_classes lvl = DeviceCard_classes ''MINIMAL''"
  by (simp add: getRiskColor_def getRiskBgColor_def DeviceCard_classes_def)

theorem risk_colors_default_green_witness:
  "''CRITICAL'' \<notin> {''HIGH'', ''MEDIUM'', ''LOW''} \<and>
   getRiskColor ''CRITICAL'' = ''text-cyber-green'' \<and>
   getRiskBgColor ''CRITICAL'' = ''bg-cyber-green/20 border-cyber-green'' \<and>
   getRiskColor ''CRITICAL'' = getRiskColor ''MINIMAL'' \<and>
   getRiskBgColor ''CRITICAL'' = getRiskBgColor ''MINIMAL'' \<and>
   DeviceCard_classes ''CRITICAL'' = DeviceCard_classes ''MINIMAL''"
  using risk_colors_default_green [of "''CRITICAL''"]
  by (simp add: getRiskColor_def getRiskBgColor_def DeviceCard_classes_def)

end
